theory Spec2Isabelle
  imports Main
begin

section \<open>Parsed JSON payloads and JavaScript value semantics\<close>

text \<open>
  The adapters read database values that went through \<^verbatim>\<open>safeJsonParse(item.value, null)\<close>.
  A parsed value is a \<open>jsval\<close>; \<open>JUndefined\<close> is what reading a missing property gives.
  Numbers are integers (epoch milliseconds, indices); strings are lists of 8-bit characters.
  An object is the list of its own properties; a property read takes the first binding.
\<close>

datatype jsval =
    JUndefined
  | JNull
  | JBool bool
  | JNum int
  | JStr string
  | JArr "jsval list"
  | JObj "(string \<times> jsval) list"

text \<open>JavaScript truthiness: what \<^verbatim>\<open>if (v)\<close>, \<^verbatim>\<open>!v\<close> and \<^verbatim>\<open>v || w\<close> test.\<close>

fun truthy :: "jsval \<Rightarrow> bool" where
  "truthy JUndefined = False"
| "truthy JNull = False"
| "truthy (JBool b) = b"
| "truthy (JNum n) = (n \<noteq> 0)"
| "truthy (JStr s) = (s \<noteq> [])"
| "truthy (JArr vs) = True"
| "truthy (JObj kvs) = True"

definition js_or :: "jsval \<Rightarrow> jsval \<Rightarrow> jsval" where
  "js_or a b = (if truthy a then a else b)"

text \<open>
  \<^verbatim>\<open>v.k\<close> for the property names the adapters read; none of them is a built-in data
  property of strings, numbers, booleans or arrays, and every read of the source is
  guarded against null and undefined.
\<close>

fun js_get :: "jsval \<Rightarrow> string \<Rightarrow> jsval" where
  "js_get (JObj kvs) k = (case map_of kvs k of Some v \<Rightarrow> v | None \<Rightarrow> JUndefined)"
| "js_get v k = JUndefined"

text \<open>
  How an extraction can fail. \<open>TypeError\<close> is the JavaScript exception of calling a string
  method on a value that is not a string; the adapters' \<^verbatim>\<open>try/catch\<close> skips the database
  item. \<open>Unsupported\<close> marks a payload that would put a value of another type into a
  field the \<^verbatim>\<open>Thread\<close>/\<^verbatim>\<open>Message\<close> types declare as string or number; about such a
  payload the development makes no statement.
\<close>

datatype failure = TypeError | Unsupported

section \<open>Strings\<close>

definition newline :: char where
  "newline = CHR 0x0A"

definition fence :: string where
  "fence = ''```''"

definition digit_char :: "nat \<Rightarrow> char" where
  "digit_char d = ''0123456789'' ! d"

text \<open>\<^verbatim>\<open>String(n)\<close> of an integer: its decimal digits.\<close>

fun String_nat :: "nat \<Rightarrow> string" where
  "String_nat n =
     (if n < 10 then [digit_char n] else String_nat (n div 10) @ [digit_char (n mod 10)])"

declare String_nat.simps [simp del]

definition String_int :: "int \<Rightarrow> string" where
  "String_int i = (if i < 0 then CHR ''-'' # String_nat (nat (- i)) else String_nat (nat i))"

definition toLowerCase_char :: "char \<Rightarrow> char" where
  "toLowerCase_char c =
     (case map_of (zip ''ABCDEFGHIJKLMNOPQRSTUVWXYZ'' ''abcdefghijklmnopqrstuvwxyz'') c of
        Some l \<Rightarrow> l
      | None \<Rightarrow> c)"

definition toLowerCase :: "string \<Rightarrow> string" where
  "toLowerCase s = map toLowerCase_char s"

fun startsWith :: "string \<Rightarrow> string \<Rightarrow> bool" where
  "startsWith s [] = True"
| "startsWith [] (p # ps) = False"
| "startsWith (c # cs) (p # ps) = (c = p \<and> startsWith cs ps)"

text \<open>\<^verbatim>\<open>s.includes(pat)\<close>: \<open>pat\<close> occurs in \<open>s\<close> as a contiguous substring.\<close>

fun str_includes :: "string \<Rightarrow> string \<Rightarrow> bool" where
  "str_includes [] pat = (pat = [])"
| "str_includes (c # cs) pat = (startsWith (c # cs) pat \<or> str_includes cs pat)"

text \<open>The regular-expression classes \<^verbatim>\<open>\w\<close> and \<^verbatim>\<open>\s\<close> on 8-bit characters.\<close>

definition word_char :: "char \<Rightarrow> bool" where
  "word_char c =
     (c \<in> set ''abcdefghijklmnopqrstuvwxyzABCDEFGHIJKLMNOPQRSTUVWXYZ0123456789_'')"

definition is_space :: "char \<Rightarrow> bool" where
  "is_space c = (c \<in> set [CHR 0x20, CHR 0x09, CHR 0x0A, CHR 0x0B, CHR 0x0C, CHR 0x0D])"

definition trim :: "string \<Rightarrow> string" where
  "trim s = rev (dropWhile is_space (rev (dropWhile is_space s)))"

text \<open>\<^verbatim>\<open>s.substring(0, n)\<close>.\<close>

definition substring0 :: "nat \<Rightarrow> string \<Rightarrow> string" where
  "substring0 n s = take n s"

text \<open>\<^verbatim>\<open>inputs.join('|')\<close>.\<close>

fun join_bar :: "string list \<Rightarrow> string" where
  "join_bar [] = []"
| "join_bar [s] = s"
| "join_bar (s # t # ss) = s @ CHR ''|'' # join_bar (t # ss)"

text \<open>\<^verbatim>\<open>s.split('\n')\<close>: the lines of \<open>s\<close>; one empty line for the empty string.\<close>

fun split_lines :: "string \<Rightarrow> string list" where
  "split_lines [] = [[]]"
| "split_lines (c # cs) =
     (if c = newline then [] # split_lines cs
      else (case split_lines cs of
              [] \<Rightarrow> [[c]]
            | l # ls \<Rightarrow> (c # l) # ls))"

section \<open>Shared utilities\<close>

text \<open>
  \<^verbatim>\<open>generateStableId(...inputs)\<close>: the first 16 characters of the hexadecimal SHA-256
  digest of the inputs joined by a bar. The digest is Node's \<^verbatim>\<open>crypto\<close> library; it is the
  parameter \<open>sha256_hex\<close> here.
\<close>

definition generateStableId :: "(string \<Rightarrow> string) \<Rightarrow> string list \<Rightarrow> string" where
  "generateStableId sha256_hex inputs = substring0 16 (sha256_hex (join_bar inputs))"

record CodeBlock =
  language :: string
  block_content :: string

text \<open>
  The lazy body \<^verbatim>\<open>([\s\S]*?)```\<close>: the text up to the first triple backtick, and what
  follows that triple backtick.
\<close>

fun find_close :: "string \<Rightarrow> (string \<times> string) option" where
  "find_close [] = None"
| "find_close (c # cs) =
     (if startsWith (c # cs) fence then Some ([], drop 3 (c # cs))
      else (case find_close cs of
              None \<Rightarrow> None
            | Some (inner, rest) \<Rightarrow> Some (c # inner, rest)))"

text \<open>
  One attempt of \<^verbatim>\<open>/```(\w+)?\n([\s\S]*?)```/\<close> at the start of \<open>s\<close>: the block it
  captures and the text after the match. The greedy \<^verbatim>\<open>(\w+)?\<close> takes the longest run of
  word characters; a shorter run is followed by a word character, never by the newline the
  pattern needs next, so backtracking into the group finds nothing more.
\<close>

definition codeBlockRegex_at :: "string \<Rightarrow> (CodeBlock \<times> string) option" where
  "codeBlockRegex_at s =
     (if startsWith s fence then
        (let r = drop 3 s; w = takeWhile word_char r in
         case dropWhile word_char r of
           [] \<Rightarrow> None
         | c # body \<Rightarrow>
             if c = newline then
               (case find_close body of
                  None \<Rightarrow> None
                | Some (inner, rest) \<Rightarrow>
                    Some (\<lparr>language = (if w = [] then ''text'' else w),
                           block_content = trim inner\<rparr>, rest))
             else None)
      else None)"

lemma find_close_length:
  "find_close s = Some (inner, rest) \<Longrightarrow> length rest < length s"
  by (induction s arbitrary: inner rest) (auto split: if_splits option.splits)

lemma codeBlockRegex_at_length:
  assumes "codeBlockRegex_at s = Some (b, rest)"
  shows "length rest < length s"
proof -
  from assms obtain body inner
    where d: "dropWhile word_char (drop 3 s) = newline # body"
      and f: "find_close body = Some (inner, rest)"
    by (auto simp: codeBlockRegex_at_def Let_def split: if_splits list.splits option.splits)
  have "length (dropWhile word_char (drop 3 s)) \<le> length (drop 3 s)"
    by (rule length_dropWhile_le)
  with d have "length body < length s" by simp
  with find_close_length [OF f] show ?thesis by simp
qed

text \<open>
  \<^verbatim>\<open>extractCodeBlocks(content)\<close>: the \<^verbatim>\<open>exec\<close> loop of the global regular expression.
  The search tries each position from the left; after a match it resumes behind the match.
\<close>

function extractCodeBlocks :: "string \<Rightarrow> CodeBlock list" where
  "extractCodeBlocks [] = []"
| "extractCodeBlocks (c # cs) =
     (case codeBlockRegex_at (c # cs) of
        Some (b, rest) \<Rightarrow> b # extractCodeBlocks rest
      | None \<Rightarrow> extractCodeBlocks cs)"
  by pat_completeness auto
termination
  by (relation "measure length") (auto dest: codeBlockRegex_at_length)

section \<open>Data model\<close>

datatype MessageRole = User | Assistant | System | Tool

text \<open>The role as the string the message id hashes.\<close>

fun role_name :: "MessageRole \<Rightarrow> string" where
  "role_name User = ''user''"
| "role_name Assistant = ''assistant''"
| "role_name System = ''system''"
| "role_name Tool = ''tool''"

record Message =
  message_id :: string
  threadId :: string
  role :: MessageRole
  message_content :: string
  timestamp :: int
  codeBlocks :: "CodeBlock list"
  message_metadata :: jsval

record Thread =
  thread_id :: string
  title :: string
  workspaceId :: "string option"
  workspaceName :: jsval
  createdAt :: int
  updatedAt :: int
  messageCount :: nat
  lastMessage :: string
  thread_metadata :: jsval

text \<open>
  The database reader is a constructor argument of the adapters. Its two queries return
  rows of key and value; the value is given here as \<^verbatim>\<open>safeJsonParse\<close> returns it
  (\<open>JNull\<close> for a value that does not parse).
\<close>

record SafeDbReader =
  getItemsByKeys :: "string list \<Rightarrow> (string \<times> jsval) list"
  getItemsByPattern :: "string \<Rightarrow> (string \<times> jsval) list"

text \<open>\<^verbatim>\<open>x || Date.now()\<close> read as a number, for a timestamp field or its decimal string.\<close>

definition number_or_now :: "jsval \<Rightarrow> int \<Rightarrow> failure + int" where
  "number_or_now v now =
     (case js_or v (JNum now) of
        JNum n \<Rightarrow> Inr n
      | _ \<Rightarrow> Inl Unsupported)"

text \<open>\<^verbatim>\<open>n || m\<close> on numbers.\<close>

definition int_or :: "int \<Rightarrow> int \<Rightarrow> int" where
  "int_or n m = (if n \<noteq> 0 then n else m)"

text \<open>\<^verbatim>\<open>this.workspaceId === '_global_' ? undefined : this.workspaceId\<close>.\<close>

definition thread_workspaceId :: "string \<Rightarrow> string option" where
  "thread_workspaceId ws = (if ws = ''_global_'' then None else Some ws)"

text \<open>
  The title clean-up shared by both adapters: \<^verbatim>\<open>firstLine.replace(/^[#*>\-\s]+/, '').trim()\<close>
  on the first line of the trimmed content.
\<close>

definition title_markup :: "char \<Rightarrow> bool" where
  "title_markup c = (c \<in> set ''#*>-'' \<or> is_space c)"

definition first_line_title :: "string \<Rightarrow> string" where
  "first_line_title content_trimmed =
     trim (dropWhile title_markup (takeWhile (\<lambda>c. c \<noteq> newline) content_trimmed))"

definition truncate_title :: "string \<Rightarrow> string" where
  "truncate_title t = (if length t > 60 then substring0 57 t @ ''...'' else t)"

section \<open>The chatdata adapter\<close>

text \<open>\<^verbatim>\<open>ChatDataAdapter.normalizeRole(role: string)\<close>.\<close>

definition ChatData_normalizeRole :: "string \<Rightarrow> MessageRole" where
  "ChatData_normalizeRole r =
     (let normalized = toLowerCase r in
      if str_includes normalized ''user'' \<or> str_includes normalized ''human'' then User
      else if str_includes normalized ''assistant'' \<or> str_includes normalized ''ai''
              \<or> str_includes normalized ''bot'' then Assistant
      else if str_includes normalized ''system'' then System
      else if str_includes normalized ''tool'' \<or> str_includes normalized ''function'' then Tool
      else User)"

text \<open>
  A role function called on an untyped value: \<^verbatim>\<open>role.toLowerCase()\<close> throws on anything
  but a string.
\<close>

definition call_on_string :: "(string \<Rightarrow> 'a) \<Rightarrow> jsval \<Rightarrow> failure + 'a" where
  "call_on_string f v = (case v of JStr s \<Rightarrow> Inr (f s) | _ \<Rightarrow> Inl TypeError)"

text \<open>\<^verbatim>\<open>ChatDataAdapter.generateThreadTitle(firstMessage)\<close>.\<close>

definition ChatData_generateThreadTitle :: "Message \<Rightarrow> string" where
  "ChatData_generateThreadTitle firstMessage =
     (let t = truncate_title (first_line_title (trim (message_content firstMessage))) in
      if t = [] then ''Untitled Conversation'' else t)"

text \<open>
  \<^verbatim>\<open>ChatDataAdapter.extractMessage(msg, threadId, index)\<close>. A truthy content that is not
  a string makes the caller's \<^verbatim>\<open>message.content.substring(0, 100)\<close> throw right after
  the call returns; the exception is raised here.
\<close>

definition ChatData_extractMessage ::
  "(string \<Rightarrow> string) \<Rightarrow> int \<Rightarrow> jsval \<Rightarrow> string \<Rightarrow> nat \<Rightarrow> failure + Message option" where
  "ChatData_extractMessage sha now msg tid index =
     (if \<not> truthy msg then Inr None
      else
        let content = js_or (js_or (js_or (js_get msg ''content'') (js_get msg ''text''))
                               (js_get msg ''message'')) (JStr []) in
        if \<not> truthy content then Inr None
        else
          case call_on_string ChatData_normalizeRole
                 (js_or (js_or (js_or (js_get msg ''role'') (js_get msg ''type''))
                           (js_get msg ''sender'')) (JStr ''user'')) of
            Inl e \<Rightarrow> Inl e
          | Inr r \<Rightarrow>
              (case content of
                 JStr c \<Rightarrow>
                   (case number_or_now (js_or (js_get msg ''timestamp'') (js_get msg ''time'')) now of
                      Inl e \<Rightarrow> Inl e
                    | Inr ts \<Rightarrow>
                        Inr (Some \<lparr>message_id = generateStableId sha [tid, role_name r, String_nat index],
                                   threadId = tid,
                                   role = r,
                                   message_content = c,
                                   timestamp = ts,
                                   codeBlocks = extractCodeBlocks c,
                                   message_metadata =
                                     JObj [(''originalIndex'', JNum (int index)), (''source'', msg)]\<rparr>))
               | _ \<Rightarrow> Inl TypeError))"

text \<open>
  The message loops \<^verbatim>\<open>for (let i = 0; i < xs.length; i++)\<close> of both adapters, from
  index \<open>i\<close> on: \<open>f\<close> extracts one message; a null result is skipped, the first exception
  leaves the loop.
\<close>

fun collect_messages ::
  "(jsval \<Rightarrow> nat \<Rightarrow> failure + Message option) \<Rightarrow> jsval list \<Rightarrow> nat \<Rightarrow> failure + Message list" where
  "collect_messages f [] i = Inr []"
| "collect_messages f (msg # msgs) i =
     (case f msg i of
        Inl e \<Rightarrow> Inl e
      | Inr r \<Rightarrow>
          (case collect_messages f msgs (Suc i) of
             Inl e \<Rightarrow> Inl e
           | Inr rest \<Rightarrow> Inr (case r of None \<Rightarrow> rest | Some m \<Rightarrow> m # rest)))"

text \<open>\<^verbatim>\<open>session.messages || session.history || session.entries || []\<close>.\<close>

definition sessionMessages_of :: "jsval \<Rightarrow> jsval" where
  "sessionMessages_of session =
     js_or (js_or (js_or (js_get session ''messages'') (js_get session ''history''))
              (js_get session ''entries'')) (JArr [])"

text \<open>The thread record that \<^verbatim>\<open>extractChatSession\<close> creates (lines 146 to 159).\<close>

definition ChatData_sessionThread ::
  "string \<Rightarrow> int \<Rightarrow> jsval \<Rightarrow> nat \<Rightarrow> string \<Rightarrow> Message list \<Rightarrow> Thread" where
  "ChatData_sessionThread ws now session index tid extracted =
     \<lparr>thread_id = tid,
      title = ChatData_generateThreadTitle (hd extracted),
      workspaceId = thread_workspaceId ws,
      workspaceName = js_or (js_get session ''workspace'') JUndefined,
      createdAt = int_or (timestamp (hd extracted)) now,
      updatedAt = int_or (timestamp (last extracted)) now,
      messageCount = length extracted,
      lastMessage = substring0 100 (message_content (last extracted)),
      thread_metadata =
        JObj [(''source'', JStr ''chatdata''), (''originalIndex'', JNum (int index))]\<rparr>"

text \<open>\<^verbatim>\<open>ChatDataAdapter.extractChatSession(session, index)\<close>.\<close>

definition ChatData_extractChatSession ::
  "(string \<Rightarrow> string) \<Rightarrow> string \<Rightarrow> int \<Rightarrow> jsval \<Rightarrow> nat
     \<Rightarrow> failure + (Thread \<times> Message list) option" where
  "ChatData_extractChatSession sha ws now session index =
     (if \<not> truthy session then Inr None
      else
        case sessionMessages_of session of
          JArr sessionMessages \<Rightarrow>
            (case sessionMessages of
               [] \<Rightarrow> Inr None
             | first # _ \<Rightarrow>
                 (case number_or_now (js_get first ''timestamp'') now of
                    Inl e \<Rightarrow> Inl e
                  | Inr ts0 \<Rightarrow>
                      (case collect_messages
                              (\<lambda>msg i. ChatData_extractMessage sha now msg
                                 (generateStableId sha
                                    [ws, ''chatdata'', String_nat index, String_int ts0]) i)
                              sessionMessages 0 of
                         Inl e \<Rightarrow> Inl e
                       | Inr extracted \<Rightarrow>
                           if extracted = [] then Inr None
                           else
                             Inr (Some
                               (ChatData_sessionThread ws now session index
                                  (generateStableId sha
                                     [ws, ''chatdata'', String_nat index, String_int ts0])
                                  extracted,
                                extracted)))))
        | _ \<Rightarrow> Inr None)"

text \<open>
  The messages and the thread record that \<^verbatim>\<open>extractFromPrompt\<close> creates for the prompt
  text \<open>p\<close>, the response text (if the prompt has a truthy one) and the number \<open>ts\<close> that
  \<^verbatim>\<open>prompt.timestamp || Date.now()\<close> gives.
\<close>

definition ChatData_promptMessages ::
  "(string \<Rightarrow> string) \<Rightarrow> string \<Rightarrow> string \<Rightarrow> string option \<Rightarrow> int \<Rightarrow> Message list" where
  "ChatData_promptMessages sha tid p response ts =
     \<lparr>message_id = generateStableId sha [tid, ''user'', String_nat 0],
      threadId = tid,
      role = User,
      message_content = p,
      timestamp = ts,
      codeBlocks = extractCodeBlocks p,
      message_metadata = JUndefined\<rparr>
     # (case response of
          None \<Rightarrow> []
        | Some r \<Rightarrow>
            [\<lparr>message_id = generateStableId sha [tid, ''assistant'', String_nat 1],
              threadId = tid,
              role = Assistant,
              message_content = r,
              timestamp = ts + 1000,
              codeBlocks = extractCodeBlocks r,
              message_metadata = JUndefined\<rparr>])"

definition ChatData_promptThread :: "string \<Rightarrow> nat \<Rightarrow> string \<Rightarrow> Message list \<Rightarrow> Thread" where
  "ChatData_promptThread ws index tid extracted =
     \<lparr>thread_id = tid,
      title = ChatData_generateThreadTitle (hd extracted),
      workspaceId = thread_workspaceId ws,
      workspaceName = JUndefined,
      createdAt = timestamp (hd extracted),
      updatedAt = int_or (timestamp (last extracted)) (timestamp (hd extracted)),
      messageCount = length extracted,
      lastMessage = substring0 100 (message_content (last extracted)),
      thread_metadata =
        JObj [(''source'', JStr ''prompts''), (''originalIndex'', JNum (int index))]\<rparr>"

text \<open>
  \<^verbatim>\<open>ChatDataAdapter.extractFromPrompt(prompt, index)\<close>. A prompt text that is not a
  string throws in \<^verbatim>\<open>generateThreadTitle\<close>, a truthy response that is not a string
  in \<^verbatim>\<open>content.substring\<close>; both before the function returns.
\<close>

definition ChatData_extractFromPrompt ::
  "(string \<Rightarrow> string) \<Rightarrow> string \<Rightarrow> int \<Rightarrow> jsval \<Rightarrow> nat
     \<Rightarrow> failure + (Thread \<times> Message list) option" where
  "ChatData_extractFromPrompt sha ws now prompt index =
     (if \<not> truthy prompt \<or> \<not> truthy (js_get prompt ''prompt'') then Inr None
      else
        case js_get prompt ''prompt'' of
          JStr p \<Rightarrow>
            (case (if truthy (js_get prompt ''response'')
                   then call_on_string Some (js_get prompt ''response'')
                   else Inr None) of
               Inl e \<Rightarrow> Inl e
             | Inr response \<Rightarrow>
                 (case number_or_now (js_get prompt ''timestamp'') now of
                    Inl e \<Rightarrow> Inl e
                  | Inr ts \<Rightarrow>
                      Inr (Some
                        (ChatData_promptThread ws index
                           (generateStableId sha [ws, ''prompts'', String_nat index, String_int ts])
                           (ChatData_promptMessages sha
                              (generateStableId sha
                                 [ws, ''prompts'', String_nat index, String_int ts])
                              p response ts),
                         ChatData_promptMessages sha
                           (generateStableId sha [ws, ''prompts'', String_nat index, String_int ts])
                           p response ts))))
        | _ \<Rightarrow> Inl TypeError)"

text \<open>
  The loops \<^verbatim>\<open>for (let i = 0; i < data.length; i++)\<close> of \<^verbatim>\<open>extractFromChatData\<close> and
  \<^verbatim>\<open>extractFromPrompts\<close>: one per-entry extractor applied to each element with its index,
  the threads and messages collected in order; the first exception leaves the loop.
\<close>

fun collect_indexed ::
  "(jsval \<Rightarrow> nat \<Rightarrow> failure + (Thread \<times> Message list) option) \<Rightarrow> jsval list \<Rightarrow> nat
     \<Rightarrow> failure + (Thread list \<times> Message list)" where
  "collect_indexed f [] i = Inr ([], [])"
| "collect_indexed f (x # xs) i =
     (case f x i of
        Inl e \<Rightarrow> Inl e
      | Inr r \<Rightarrow>
          (case collect_indexed f xs (Suc i) of
             Inl e \<Rightarrow> Inl e
           | Inr (ts, ms) \<Rightarrow>
               Inr (case r of
                      None \<Rightarrow> (ts, ms)
                    | Some (t, tms) \<Rightarrow> (t # ts, tms @ ms))))"

text \<open>The result of one extractor call as lists, as the single-session branch pushes it.\<close>

definition single_result ::
  "failure + (Thread \<times> Message list) option \<Rightarrow> failure + (Thread list \<times> Message list)" where
  "single_result r =
     (case r of
        Inl e \<Rightarrow> Inl e
      | Inr None \<Rightarrow> Inr ([], [])
      | Inr (Some (t, ms)) \<Rightarrow> Inr ([t], ms))"

text \<open>\<^verbatim>\<open>ChatDataAdapter.extractFromChatData(data)\<close>.\<close>

definition ChatData_extractFromChatData ::
  "(string \<Rightarrow> string) \<Rightarrow> string \<Rightarrow> int \<Rightarrow> jsval \<Rightarrow> failure + (Thread list \<times> Message list)" where
  "ChatData_extractFromChatData sha ws now data =
     (case data of
        JArr sessions \<Rightarrow> collect_indexed (ChatData_extractChatSession sha ws now) sessions 0
      | _ \<Rightarrow>
          if truthy (js_get data ''conversations'') \<or> truthy (js_get data ''chats'') then
            (case js_or (js_get data ''conversations'') (js_get data ''chats'') of
               JArr chatArray \<Rightarrow>
                 collect_indexed (ChatData_extractChatSession sha ws now) chatArray 0
             | _ \<Rightarrow> Inr ([], []))
          else if truthy (js_get data ''messages'') \<or> truthy (js_get data ''history'') then
            single_result (ChatData_extractChatSession sha ws now data 0)
          else Inr ([], []))"

text \<open>\<^verbatim>\<open>ChatDataAdapter.extractFromPrompts(data)\<close>.\<close>

definition ChatData_extractFromPrompts ::
  "(string \<Rightarrow> string) \<Rightarrow> string \<Rightarrow> int \<Rightarrow> jsval \<Rightarrow> failure + (Thread list \<times> Message list)" where
  "ChatData_extractFromPrompts sha ws now data =
     (case data of
        JArr prompts \<Rightarrow> collect_indexed (ChatData_extractFromPrompt sha ws now) prompts 0
      | _ \<Rightarrow> Inr ([], []))"

text \<open>
  The item loop of both adapters' \<^verbatim>\<open>extract()\<close>: \<open>f\<close> is the body of the \<^verbatim>\<open>try\<close> for one
  row with a truthy parsed value. A falsy value is skipped (\<^verbatim>\<open>if (!data) continue\<close>);
  a \<open>TypeError\<close> is caught and logged, and the loop goes on with the next row.
\<close>

fun extract_items ::
  "(string \<Rightarrow> jsval \<Rightarrow> failure + (Thread list \<times> Message list)) \<Rightarrow> (string \<times> jsval) list
     \<Rightarrow> failure + (Thread list \<times> Message list)" where
  "extract_items f [] = Inr ([], [])"
| "extract_items f ((key, data) # items) =
     (case (if \<not> truthy data then Inr ([], []) else f key data) of
        Inl TypeError \<Rightarrow> extract_items f items
      | Inl Unsupported \<Rightarrow> Inl Unsupported
      | Inr (ts, ms) \<Rightarrow>
          (case extract_items f items of
             Inl e \<Rightarrow> Inl e
           | Inr (ts', ms') \<Rightarrow> Inr (ts @ ts', ms @ ms')))"

definition chatDataKeys :: "string list" where
  "chatDataKeys = [''workbench.panel.aichat.view.aichat.chatdata'', ''aiService.prompts'']"

text \<open>\<^verbatim>\<open>ChatDataAdapter.extract()\<close>.\<close>

definition ChatData_extract ::
  "(string \<Rightarrow> string) \<Rightarrow> SafeDbReader \<Rightarrow> string \<Rightarrow> int \<Rightarrow> failure + (Thread list \<times> Message list)" where
  "ChatData_extract sha dbReader ws now =
     extract_items
       (\<lambda>key data.
          if key = ''workbench.panel.aichat.view.aichat.chatdata''
          then ChatData_extractFromChatData sha ws now data
          else if key = ''aiService.prompts''
          then ChatData_extractFromPrompts sha ws now data
          else Inr ([], []))
       (getItemsByKeys dbReader chatDataKeys)"

section \<open>The composer adapter\<close>




text \<open>\<^verbatim>\<open>ComposerAdapter.normalizeRole(role: string)\<close>.\<close>

definition Composer_normalizeRole :: "string \<Rightarrow> MessageRole" where
  "Composer_normalizeRole r =
     (if r = [] then User
      else
        let normalized = toLowerCase r in
        if str_includes normalized ''user'' \<or> str_includes normalized ''human'' then User
        else if str_includes normalized ''assistant'' \<or> str_includes normalized ''ai''
                \<or> str_includes normalized ''cursor'' then Assistant
        else if str_includes normalized ''system'' then System
        else if str_includes normalized ''tool'' \<or> str_includes normalized ''function'' then Tool
        else User)"

text \<open>\<^verbatim>\<open>ComposerAdapter.generateThreadTitle(data, firstMessage)\<close>.\<close>

definition Composer_generateThreadTitle :: "jsval \<Rightarrow> Message \<Rightarrow> string" where
  "Composer_generateThreadTitle data firstMessage =
     (case (case js_get data ''title'' of
              JStr t \<Rightarrow> if trim t \<noteq> [] then Some (trim t) else None
            | _ \<Rightarrow> None) of
        Some t \<Rightarrow> t
      | None \<Rightarrow>
          let content = trim (message_content firstMessage);
              title0 = first_line_title content;
              title1 =
                (if startsWith title0 fence then
                   (case find (\<lambda>l. l \<noteq> [] \<and> \<not> startsWith l fence)
                           (take 4 (tl (split_lines content))) of
                      Some l \<Rightarrow> trim l
                    | None \<Rightarrow> title0)
                 else title0);
              t = truncate_title title1
          in if t = [] then ''New Conversation'' else t)"

text \<open>
  \<^verbatim>\<open>ComposerAdapter.extractComposerMessage(msg, composerId, index)\<close>. The message id
  hashes \<^verbatim>\<open>tempThreadId\<close>, the id of workspace, adapter and composer id without a
  timestamp. A role that is not a string throws; a truthy content that is not a string
  would be stored in the message as it is.
\<close>

definition Composer_extractComposerMessage ::
  "(string \<Rightarrow> string) \<Rightarrow> string \<Rightarrow> int \<Rightarrow> jsval \<Rightarrow> string \<Rightarrow> nat \<Rightarrow> failure + Message option" where
  "Composer_extractComposerMessage sha ws now msg composerId index =
     (if \<not> truthy msg then Inr None
      else
        let content = js_or (js_or (js_or (js_or (js_or (js_get msg ''content'') (js_get msg ''text''))
                                 (js_get msg ''message'')) (js_get msg ''prompt''))
                          (js_get msg ''response'')) (JStr []) in
        if \<not> truthy content then Inr None
        else
          case call_on_string Composer_normalizeRole
                 (js_or (js_or (js_or (js_get msg ''role'') (js_get msg ''type''))
                           (js_get msg ''sender'')) (JStr ''user'')) of
            Inl e \<Rightarrow> Inl e
          | Inr r \<Rightarrow>
              (case number_or_now
                      (js_or (js_or (js_get msg ''timestamp'') (js_get msg ''createdAt''))
                         (js_get msg ''time'')) now of
                 Inl e \<Rightarrow> Inl e
               | Inr ts \<Rightarrow>
                   (case content of
                      JStr c \<Rightarrow>
                        let tempThreadId = generateStableId sha [ws, ''composer'', composerId] in
                        Inr (Some
                          \<lparr>message_id = generateStableId sha [tempThreadId, role_name r, String_nat index],
                           threadId = tempThreadId,
                           role = r,
                           message_content = c,
                           timestamp = ts,
                           codeBlocks = extractCodeBlocks c,
                           message_metadata =
                             JObj [(''originalIndex'', JNum (int index)),
                                   (''composerId'', JStr composerId),
                                   (''source'', msg),
                                   (''messageType'', js_get msg ''messageType''),
                                   (''contextFiles'', js_get msg ''contextFiles''),
                                   (''codebaseContexts'', js_get msg ''codebaseContexts'')]\<rparr>)
                    | _ \<Rightarrow> Inl Unsupported)))"

text \<open>
  The messages and the thread record that \<^verbatim>\<open>extractSinglePrompt\<close> creates for the
  prompt and response texts that are truthy.
\<close>

definition Composer_promptMessages ::
  "(string \<Rightarrow> string) \<Rightarrow> string \<Rightarrow> string option \<Rightarrow> string option \<Rightarrow> int \<Rightarrow> Message list" where
  "Composer_promptMessages sha tid prompt response ts =
     (case prompt of
        None \<Rightarrow> []
      | Some p \<Rightarrow>
          [\<lparr>message_id = generateStableId sha [tid, ''user'', ''0''],
            threadId = tid,
            role = User,
            message_content = p,
            timestamp = ts,
            codeBlocks = extractCodeBlocks p,
            message_metadata = JUndefined\<rparr>])
     @ (case response of
          None \<Rightarrow> []
        | Some r \<Rightarrow>
            [\<lparr>message_id = generateStableId sha [tid, ''assistant'', ''1''],
              threadId = tid,
              role = Assistant,
              message_content = r,
              timestamp = ts + 1000,
              codeBlocks = extractCodeBlocks r,
              message_metadata = JUndefined\<rparr>])"

definition Composer_promptThread :: "string \<Rightarrow> jsval \<Rightarrow> string \<Rightarrow> string \<Rightarrow> Message list \<Rightarrow> Thread" where
  "Composer_promptThread ws data composerId tid extracted =
     \<lparr>thread_id = tid,
      title = Composer_generateThreadTitle data (hd extracted),
      workspaceId = thread_workspaceId ws,
      workspaceName = JUndefined,
      createdAt = timestamp (hd extracted),
      updatedAt = timestamp (last extracted),
      messageCount = length extracted,
      lastMessage = substring0 100 (message_content (last extracted)),
      thread_metadata =
        JObj [(''source'', JStr ''composer''), (''composerId'', JStr composerId)]\<rparr>"

text \<open>A truthy text field as a string; a truthy value of another type is outside the typed messages.\<close>

definition truthy_text :: "jsval \<Rightarrow> failure + string option" where
  "truthy_text v =
     (if truthy v then (case v of JStr t \<Rightarrow> Inr (Some t) | _ \<Rightarrow> Inl Unsupported)
      else Inr None)"

text \<open>\<^verbatim>\<open>ComposerAdapter.extractSinglePrompt(data, composerId)\<close>.\<close>

definition Composer_extractSinglePrompt ::
  "(string \<Rightarrow> string) \<Rightarrow> string \<Rightarrow> int \<Rightarrow> jsval \<Rightarrow> string
     \<Rightarrow> failure + (Thread \<times> Message list) option" where
  "Composer_extractSinglePrompt sha ws now data composerId =
     (case number_or_now (js_get data ''timestamp'') now of
        Inl e \<Rightarrow> Inl e
      | Inr ts \<Rightarrow>
          (case truthy_text (js_get data ''prompt'') of
             Inl e \<Rightarrow> Inl e
           | Inr prompt \<Rightarrow>
               (case truthy_text (js_get data ''response'') of
                  Inl e \<Rightarrow> Inl e
                | Inr response \<Rightarrow>
                    if Composer_promptMessages sha
                         (generateStableId sha [ws, ''composer'', composerId, String_int ts])
                         prompt response ts = []
                    then Inr None
                    else
                      Inr (Some
                        (Composer_promptThread ws data composerId
                           (generateStableId sha [ws, ''composer'', composerId, String_int ts])
                           (Composer_promptMessages sha
                              (generateStableId sha [ws, ''composer'', composerId, String_int ts])
                              prompt response ts),
                         Composer_promptMessages sha
                           (generateStableId sha [ws, ''composer'', composerId, String_int ts])
                           prompt response ts)))))"

text \<open>\<^verbatim>\<open>n || v || Date.now()\<close> for a number \<open>n\<close> and a payload field \<open>v\<close>.\<close>

definition int_or_field :: "int \<Rightarrow> jsval \<Rightarrow> int \<Rightarrow> failure + int" where
  "int_or_field n v now = (if n \<noteq> 0 then Inr n else number_or_now v now)"

text \<open>\<^verbatim>\<open>data.conversation || data.messages || data.history\<close>.\<close>

definition conversation_of :: "jsval \<Rightarrow> jsval" where
  "conversation_of data =
     js_or (js_or (js_get data ''conversation'') (js_get data ''messages'')) (js_get data ''history'')"

text \<open>
  The message list of \<^verbatim>\<open>extractComposerData\<close> for a conversation: an array gives the
  messages of its entries, a single object one message at index 0, anything else none.
\<close>

definition Composer_conversationMessages ::
  "(string \<Rightarrow> string) \<Rightarrow> string \<Rightarrow> int \<Rightarrow> jsval \<Rightarrow> string \<Rightarrow> failure + Message list" where
  "Composer_conversationMessages sha ws now conversation composerId =
     (case conversation of
        JArr msgs \<Rightarrow>
          collect_messages
            (\<lambda>msg i. Composer_extractComposerMessage sha ws now msg composerId i) msgs 0
      | JObj kvs \<Rightarrow>
          (case Composer_extractComposerMessage sha ws now conversation composerId 0 of
             Inl e \<Rightarrow> Inl e
           | Inr None \<Rightarrow> Inr []
           | Inr (Some m) \<Rightarrow> Inr [m])
      | _ \<Rightarrow> Inr [])"

text \<open>The thread record that \<^verbatim>\<open>extractComposerData\<close> creates (lines 261 to 279).\<close>

definition Composer_conversationThread ::
  "string \<Rightarrow> jsval \<Rightarrow> string \<Rightarrow> string \<Rightarrow> int \<Rightarrow> int \<Rightarrow> Message list \<Rightarrow> Thread" where
  "Composer_conversationThread ws data composerId tid created updated extracted =
     \<lparr>thread_id = tid,
      title = Composer_generateThreadTitle data (hd extracted),
      workspaceId = thread_workspaceId ws,
      workspaceName = js_or (js_get data ''workspaceName'') JUndefined,
      createdAt = created,
      updatedAt = updated,
      messageCount = length extracted,
      lastMessage = substring0 100 (message_content (last extracted)),
      thread_metadata =
        JObj [(''source'', JStr ''composer''),
              (''composerId'', JStr composerId),
              (''originalData'',
               JObj [(''title'', js_get data ''title''),
                     (''tags'', js_get data ''tags''),
                     (''starred'', js_get data ''starred'')])]\<rparr>"

text \<open>
  The part of \<^verbatim>\<open>extractComposerData\<close> after the message loop (lines 245 to 281): the
  thread id from the first extracted message's timestamp, the messages re-pointed to it,
  and the thread.
\<close>

definition Composer_finishThread ::
  "(string \<Rightarrow> string) \<Rightarrow> string \<Rightarrow> int \<Rightarrow> jsval \<Rightarrow> string \<Rightarrow> Message list
     \<Rightarrow> failure + (Thread \<times> Message list) option" where
  "Composer_finishThread sha ws now data composerId extracted =
     (if extracted = [] then Inr None
      else
        case int_or_field (timestamp (hd extracted)) (js_get data ''createdAt'') now of
          Inl e \<Rightarrow> Inl e
        | Inr created \<Rightarrow>
            (case int_or_field (timestamp (last extracted)) (js_get data ''updatedAt'') now of
               Inl e \<Rightarrow> Inl e
             | Inr updated \<Rightarrow>
                 Inr (Some
                   (Composer_conversationThread ws data composerId
                      (generateStableId sha
                         [ws, ''composer'', composerId,
                          String_int (int_or (timestamp (hd extracted)) now)])
                      created updated
                      (map (threadId_update
                              (\<lambda>_. generateStableId sha
                                      [ws, ''composer'', composerId,
                                       String_int (int_or (timestamp (hd extracted)) now)]))
                         extracted),
                    map (threadId_update
                           (\<lambda>_. generateStableId sha
                                   [ws, ''composer'', composerId,
                                    String_int (int_or (timestamp (hd extracted)) now)]))
                      extracted))))"

text \<open>\<^verbatim>\<open>ComposerAdapter.extractComposerData(data, composerId)\<close>.\<close>

definition Composer_extractComposerData ::
  "(string \<Rightarrow> string) \<Rightarrow> string \<Rightarrow> int \<Rightarrow> jsval \<Rightarrow> string
     \<Rightarrow> failure + (Thread \<times> Message list) option" where
  "Composer_extractComposerData sha ws now data composerId =
     (if \<not> truthy data then Inr None
      else if \<not> truthy (conversation_of data) \<and> truthy (js_get data ''prompt'')
      then Composer_extractSinglePrompt sha ws now data composerId
      else
        case Composer_conversationMessages sha ws now (conversation_of data) composerId of
          Inl e \<Rightarrow> Inl e
        | Inr extracted \<Rightarrow> Composer_finishThread sha ws now data composerId extracted)"


section \<open>The normalizer\<close>






record ResultMetadata =
  databasePath :: string
  metadata_workspaceId :: string
  extractedAt :: int
  adaptersUsed :: "string list"
  totalThreads :: nat
  totalMessages :: nat

record NormalizationResult =
  threads :: "Thread list"
  messages :: "Message list"
  metadata :: ResultMetadata









text \<open>
  \<^verbatim>\<open>allThreads.find(t => t.id === threadId)\<close> and the update of the thread found: the
  first thread with the id gets the count and the preview of the limited group.
\<close>

fun update_thread :: "string \<Rightarrow> Message list \<Rightarrow> Thread list \<Rightarrow> Thread list" where
  "update_thread k limited [] = []"
| "update_thread k limited (t # ts) =
     (if thread_id t = k then
        t\<lparr>messageCount := length limited,
          lastMessage := (if length limited > 0
                          then substring0 100 (message_content (last limited))
                          else lastMessage t)\<rparr> # ts
      else t # update_thread k limited ts)"





section \<open>The diff engine\<close>

record Diff =
  newThreads :: "Thread list"
  newMessages :: "Message list"
  updatedThreads :: "Thread list"

text \<open>
  \<^verbatim>\<open>CursorDataNormalizer.diff(previous, current)\<close>. The comparison \<^verbatim>\<open>equal\<close> is the
  library \<^verbatim>\<open>fast-deep-equal\<close>; it is the parameter \<open>equal\<close> here.
\<close>

definition diff ::
  "(Thread \<Rightarrow> Thread \<Rightarrow> bool) \<Rightarrow> NormalizationResult option \<Rightarrow> NormalizationResult \<Rightarrow> Diff" where
  "diff equal previous current =
     (case previous of
        None \<Rightarrow>
          \<lparr>newThreads = threads current, newMessages = messages current, updatedThreads = []\<rparr>
      | Some prev \<Rightarrow>
          \<lparr>newThreads =
             filter (\<lambda>t. thread_id t \<notin> set (map thread_id (threads prev))) (threads current),
           newMessages =
             filter (\<lambda>m. message_id m \<notin> set (map message_id (messages prev))) (messages current),
           updatedThreads =
             filter (\<lambda>currentThread.
                       case find (\<lambda>t. thread_id t = thread_id currentThread) (threads prev) of
                         Some prevThread \<Rightarrow> \<not> equal prevThread currentThread
                       | None \<Rightarrow> False)
                    (threads current)\<rparr>)"

section \<open>Threads and the messages that refer to them\<close>



section \<open>Source records that carry a timestamp\<close>









section \<open>Fenced regions of a content string\<close>

text \<open>
  The statement side of the code-block round trip: a content string written as a sequence
  of fenced regions. A region has the text that leads up to its opening fence, the
  language tag and the body between the tag's line end and the closing fence;
  \<open>render_regions\<close> writes the regions out, followed by a trailer. A region is well formed
  when the leading text and the body contain no triple backtick, the tag consists of word
  characters (it may be empty) and is followed at once by the line feed, and the body does
  not end in a backtick, so that the closing fence is the first triple backtick after the
  opening line.
\<close>

record FencedRegion =
  lead :: string
  tag :: string
  body :: string





section \<open>What a successful extraction returns\<close>

lemma number_or_now_zero:
  "number_or_now v now = Inr n \<Longrightarrow> n = 0 \<Longrightarrow> now = 0"
  by (cases v) (auto simp: number_or_now_def js_or_def split: if_splits)

lemma ChatData_extractMessage_Some:
  assumes "ChatData_extractMessage sha now msg tid i = Inr (Some m)"
  shows "threadId m = tid
    \<and> message_id m = generateStableId sha [tid, role_name (role m), String_nat i]
    \<and> js_get (message_metadata m) ''originalIndex'' = JNum (int i)
    \<and> number_or_now (js_or (js_get msg ''timestamp'') (js_get msg ''time'')) now = Inr (timestamp m)"
  using assms unfolding ChatData_extractMessage_def Let_def
  by (auto split: if_splits sum.splits jsval.splits)

lemma Composer_extractComposerMessage_Some:
  assumes "Composer_extractComposerMessage sha ws now msg cid i = Inr (Some m)"
  shows "threadId m = generateStableId sha [ws, ''composer'', cid]
    \<and> message_id m = generateStableId sha
           [generateStableId sha [ws, ''composer'', cid], role_name (role m), String_nat i]
    \<and> js_get (message_metadata m) ''originalIndex'' = JNum (int i)
    \<and> number_or_now (js_or (js_or (js_get msg ''timestamp'') (js_get msg ''createdAt''))
                         (js_get msg ''time'')) now = Inr (timestamp m)"
  using assms unfolding Composer_extractComposerMessage_def Let_def
  by (auto split: if_splits sum.splits jsval.splits)

lemma collect_messages_Some:
  "collect_messages f msgs i = Inr ms \<Longrightarrow> m \<in> set ms
     \<Longrightarrow> \<exists>j. j < length msgs \<and> f (msgs ! j) (i + j) = Inr (Some m)"
proof (induction msgs arbitrary: i ms)
  case Nil
  then show ?case by simp
next
  case (Cons x xs)
  from Cons.prems(1) obtain r rest where r: "f x i = Inr r"
    and rest: "collect_messages f xs (Suc i) = Inr rest"
    and ms: "ms = (case r of None \<Rightarrow> rest | Some m \<Rightarrow> m # rest)"
    by (auto split: sum.splits)
  show ?case
  proof (cases "m \<in> set rest")
    case True
    from Cons.IH [OF rest True] obtain j where "j < length xs" "f (xs ! j) (Suc i + j) = Inr (Some m)"
      by blast
    then have "Suc j < length (x # xs) \<and> f ((x # xs) ! Suc j) (i + Suc j) = Inr (Some m)" by simp
    then show ?thesis by blast
  next
    case False
    with Cons.prems(2) ms have "r = Some m" by (cases r) auto
    with r have "0 < length (x # xs) \<and> f ((x # xs) ! 0) (i + 0) = Inr (Some m)" by simp
    then show ?thesis by blast
  qed
qed

lemma ChatData_extractChatSession_Some:
  assumes "ChatData_extractChatSession sha ws now session index = Inr (Some (t, ms))"
  shows "\<exists>first rest ts0.
           sessionMessages_of session = JArr (first # rest)
           \<and> number_or_now (js_get first ''timestamp'') now = Inr ts0
           \<and> collect_messages
                 (\<lambda>msg i. ChatData_extractMessage sha now msg
                    (generateStableId sha [ws, ''chatdata'', String_nat index, String_int ts0]) i)
                 (first # rest) 0 = Inr ms
           \<and> ms \<noteq> []
           \<and> t = ChatData_sessionThread ws now session index
                   (generateStableId sha [ws, ''chatdata'', String_nat index, String_int ts0]) ms"
  using assms unfolding ChatData_extractChatSession_def
  by (auto simp del: collect_messages.simps split: if_splits sum.splits jsval.splits list.splits)

lemma ChatData_extractFromPrompt_Some:
  assumes "ChatData_extractFromPrompt sha ws now prompt index = Inr (Some (t, ms))"
  shows "\<exists>p response ts.
           js_get prompt ''prompt'' = JStr p
           \<and> number_or_now (js_get prompt ''timestamp'') now = Inr ts
           \<and> ms = ChatData_promptMessages sha
                    (generateStableId sha [ws, ''prompts'', String_nat index, String_int ts])
                    p response ts
           \<and> t = ChatData_promptThread ws index
                   (generateStableId sha [ws, ''prompts'', String_nat index, String_int ts]) ms"
  using assms unfolding ChatData_extractFromPrompt_def
  by (auto split: if_splits sum.splits jsval.splits)

lemma Composer_extractSinglePrompt_Some:
  assumes "Composer_extractSinglePrompt sha ws now data cid = Inr (Some (t, ms))"
  shows "\<exists>prompt response ts.
           number_or_now (js_get data ''timestamp'') now = Inr ts
           \<and> ms = Composer_promptMessages sha
                    (generateStableId sha [ws, ''composer'', cid, String_int ts])
                    prompt response ts
           \<and> ms \<noteq> []
           \<and> t = Composer_promptThread ws data cid
                   (generateStableId sha [ws, ''composer'', cid, String_int ts]) ms"
  using assms unfolding Composer_extractSinglePrompt_def
  by (auto split: if_splits sum.splits)

lemma Composer_finishThread_Some:
  assumes "Composer_finishThread sha ws now data cid extracted = Inr (Some (t, ms))"
  shows "extracted \<noteq> []
    \<and> ms = map (threadId_update
                     (\<lambda>_. generateStableId sha
                             [ws, ''composer'', cid,
                              String_int (int_or (timestamp (hd extracted)) now)])) extracted
    \<and> (\<exists>created updated.
           int_or_field (timestamp (hd extracted)) (js_get data ''createdAt'') now = Inr created
           \<and> int_or_field (timestamp (last extracted)) (js_get data ''updatedAt'') now = Inr updated
           \<and> t = Composer_conversationThread ws data cid
                   (generateStableId sha
                      [ws, ''composer'', cid, String_int (int_or (timestamp (hd extracted)) now)])
                   created updated ms)"
  using assms unfolding Composer_finishThread_def
  by (auto split: if_splits sum.splits)

lemma Composer_conversationMessages_Some:
  assumes "Composer_conversationMessages sha ws now conv cid = Inr ms" and "m \<in> set ms"
  shows "\<exists>msg i. Composer_extractComposerMessage sha ws now msg cid i = Inr (Some m)"
proof (cases conv)
  case (JArr msgs)
  with assms have "collect_messages
      (\<lambda>msg i. Composer_extractComposerMessage sha ws now msg cid i) msgs 0 = Inr ms"
    unfolding Composer_conversationMessages_def by simp
  from collect_messages_Some [OF this assms(2)] show ?thesis by blast
next
  case (JObj kvs)
  with assms show ?thesis
    unfolding Composer_conversationMessages_def
    by (auto split: sum.splits option.splits) blast
qed (use assms in \<open>simp_all add: Composer_conversationMessages_def\<close>)

text \<open>Rules that evaluate the definitions on concrete payloads.\<close>

lemma String_nat_0: "String_nat 0 = ''0''" and String_nat_1: "String_nat (Suc 0) = ''1''"
  by (simp_all add: String_nat.simps digit_char_def)

lemma String_nat_numeral:
  "String_nat (numeral k) =
     (if (numeral k :: nat) < 10 then [digit_char (numeral k)]
      else String_nat (numeral k div 10) @ [digit_char (numeral k mod 10)])"
  by (rule String_nat.simps)

lemmas js_defs = js_or_def number_or_now_def call_on_string_def int_or_def int_or_field_def
  truthy_text_def

lemmas string_defs = generateStableId_def substring0_def String_int_def String_nat_0 String_nat_1
  String_nat_numeral codeBlockRegex_at_def fence_def
  digit_char_def toLowerCase_def toLowerCase_char_def

lemmas chatdata_defs = ChatData_extractChatSession_def sessionMessages_of_def
  ChatData_extractMessage_def ChatData_normalizeRole_def ChatData_sessionThread_def
  ChatData_extractFromPrompt_def ChatData_promptMessages_def ChatData_promptThread_def
  ChatData_extractFromPrompts_def ChatData_extractFromChatData_def ChatData_extract_def
  single_result_def




lemma ChatData_promptMessages_stamps:
  "ChatData_promptMessages sha tid p response ts \<noteq> []
   \<and> timestamp (hd (ChatData_promptMessages sha tid p response ts)) = ts
   \<and> (timestamp (last (ChatData_promptMessages sha tid p response ts)) = ts
       \<or> timestamp (last (ChatData_promptMessages sha tid p response ts)) = ts + 1000)"
  by (cases response) (simp_all add: ChatData_promptMessages_def)

lemma Composer_promptMessages_stamps:
  "Composer_promptMessages sha tid prompt response ts \<noteq> []
   \<Longrightarrow> timestamp (hd (Composer_promptMessages sha tid prompt response ts))
         \<le> timestamp (last (Composer_promptMessages sha tid prompt response ts))"
  by (cases prompt; cases response) (simp_all add: Composer_promptMessages_def)

section \<open>Example values\<close>

text \<open>Concrete payloads and records at which the theorems below are instantiated.\<close>

definition legacy_entry :: jsval where
  "legacy_entry =
     JArr [JObj [(''prompt'', JStr ''fix bug''), (''response'', JStr ''done''),
                 (''timestamp'', JNum 1000)]]"

definition example_thread :: "string \<Rightarrow> int \<Rightarrow> nat \<Rightarrow> Thread" where
  "example_thread i u n =
     \<lparr>thread_id = i, title = ''t'', workspaceId = None, workspaceName = JUndefined,
      createdAt = u, updatedAt = u, messageCount = n, lastMessage = [],
      thread_metadata = JUndefined\<rparr>"

definition example_message :: "string \<Rightarrow> string \<Rightarrow> int \<Rightarrow> Message" where
  "example_message i t ts =
     \<lparr>message_id = i, threadId = t, role = User, message_content = ''m'', timestamp = ts,
      codeBlocks = [], message_metadata = JUndefined\<rparr>"

definition example_result :: "Thread list \<Rightarrow> Message list \<Rightarrow> NormalizationResult" where
  "example_result ts ms =
     \<lparr>threads = ts, messages = ms,
      metadata = \<lparr>databasePath = [], metadata_workspaceId = [], extractedAt = 0,
                  adaptersUsed = [], totalThreads = length ts, totalMessages = length ms\<rparr>\<rparr>"

definition example_session :: jsval where
  "example_session =
     JObj [(''messages'',
            JArr [JObj [(''content'', JStr ''a''), (''timestamp'', JNum 200)],
                  JObj [(''content'', JStr ''b''), (''timestamp'', JNum 100)]])]"









section \<open>Facts about the normalizer\<close>























lemma update_thread_keep:
  "t \<in> set ts \<Longrightarrow> thread_id t \<noteq> k \<Longrightarrow> t \<in> set (update_thread k g ts)"
  by (induction ts) auto



























section \<open>Extraction without the clock\<close>








lemma collect_messages_nonzero:
  assumes "collect_messages f msgs i = Inr ms" and "m \<in> set ms"
    and "\<And>x j m. x \<in> set msgs \<Longrightarrow> f x j = Inr (Some m) \<Longrightarrow> timestamp m \<noteq> 0"
  shows "timestamp m \<noteq> 0"
proof -
  from collect_messages_Some [OF assms(1,2)] obtain j where
    "j < length msgs" "f (msgs ! j) (i + j) = Inr (Some m)" by blast
  with assms(3) [of "msgs ! j" "i + j" m] show ?thesis by simp
qed























section \<open>Diff classification\<close>

lemma find_distinct_key:
  "distinct (map f xs) \<Longrightarrow> p \<in> set xs \<Longrightarrow> find (\<lambda>q. f q = f p) xs = Some p"
  by (induction xs) (auto simp: image_iff)

text \<open>
  Claim C2. Without a previous result every current thread and message is new and no
  thread is updated. With a previous result, a current thread (message) is new exactly
  when its id is not an id of a previous thread (message); a current thread is updated
  exactly when the first previous thread with its id exists and the comparison \<open>equal\<close>
  says the two differ, which for previous ids that are pairwise distinct is: some previous
  thread has its id and differs from it. The new threads together with the current threads
  whose id occurs in the previous result are all current threads.
\<close>

theorem diff_classification:
  "diff equal None current =
     \<lparr>newThreads = threads current, newMessages = messages current, updatedThreads = []\<rparr>
   \<and> (t \<in> set (newThreads (diff equal (Some prev) current))
        \<longleftrightarrow> t \<in> set (threads current) \<and> thread_id t \<notin> thread_id ` set (threads prev))
   \<and> (m \<in> set (newMessages (diff equal (Some prev) current))
        \<longleftrightarrow> m \<in> set (messages current) \<and> message_id m \<notin> message_id ` set (messages prev))
   \<and> (t \<in> set (updatedThreads (diff equal (Some prev) current))
        \<longleftrightarrow> t \<in> set (threads current)
            \<and> (\<exists>p. find (\<lambda>p. thread_id p = thread_id t) (threads prev) = Some p \<and> \<not> equal p t))
   \<and> (distinct (map thread_id (threads prev))
        \<longrightarrow> (t \<in> set (updatedThreads (diff equal (Some prev) current))
              \<longleftrightarrow> t \<in> set (threads current)
                  \<and> (\<exists>p \<in> set (threads prev). thread_id p = thread_id t \<and> \<not> equal p t)))
   \<and> set (newThreads (diff equal (Some prev) current))
        \<union> {c \<in> set (threads current). thread_id c \<in> thread_id ` set (threads prev)}
       = set (threads current)
   \<and> newThreads (diff equal (Some prev) current)
       = filter (\<lambda>c. thread_id c \<notin> thread_id ` set (threads prev)) (threads current)"
proof -
  let ?d = "diff equal (Some prev) current"
  have upd: "t \<in> set (updatedThreads ?d)
        \<longleftrightarrow> t \<in> set (threads current)
            \<and> (\<exists>p. find (\<lambda>p. thread_id p = thread_id t) (threads prev) = Some p \<and> \<not> equal p t)"
    by (auto simp: diff_def split: option.splits)
  have uniq: "(\<exists>p. find (\<lambda>p. thread_id p = thread_id t) (threads prev) = Some p \<and> \<not> equal p t)
        \<longleftrightarrow> (\<exists>p \<in> set (threads prev). thread_id p = thread_id t \<and> \<not> equal p t)"
    if d: "distinct (map thread_id (threads prev))"
  proof
    assume "\<exists>p. find (\<lambda>p. thread_id p = thread_id t) (threads prev) = Some p \<and> \<not> equal p t"
    then obtain p where f: "find (\<lambda>p. thread_id p = thread_id t) (threads prev) = Some p"
      and ne: "\<not> equal p t" by blast
    from f have "p \<in> set (threads prev) \<and> thread_id p = thread_id t"
      by (auto simp: find_Some_iff)
    with ne show "\<exists>p \<in> set (threads prev). thread_id p = thread_id t \<and> \<not> equal p t" by blast
  next
    assume "\<exists>p \<in> set (threads prev). thread_id p = thread_id t \<and> \<not> equal p t"
    then obtain p where p: "p \<in> set (threads prev)" "thread_id p = thread_id t" "\<not> equal p t"
      by blast
    from find_distinct_key [OF d p(1)] p(2)
    have "find (\<lambda>q. thread_id q = thread_id t) (threads prev) = Some p" by simp
    with p(3) show "\<exists>p. find (\<lambda>p. thread_id p = thread_id t) (threads prev) = Some p \<and> \<not> equal p t"
      by blast
  qed
  show ?thesis
    using upd uniq by (auto simp: diff_def)
qed

theorem diff_classification_witness:
  "newThreads (diff (=) (Some (example_result [example_thread ''a'' 1 1] []))
                 (example_result [example_thread ''a'' 2 1, example_thread ''b'' 3 1] []))
     = [example_thread ''b'' 3 1]
   \<and> example_thread ''a'' 2 1
       \<in> set (updatedThreads (diff (=) (Some (example_result [example_thread ''a'' 1 1] []))
                 (example_result [example_thread ''a'' 2 1, example_thread ''b'' 3 1] [])))"
  using diff_classification [of "(=)"
      "example_result [example_thread ''a'' 2 1, example_thread ''b'' 3 1] []"
      "example_thread ''a'' 2 1" "example_result [example_thread ''a'' 1 1] []"]
  by (simp add: example_result_def example_thread_def)

section \<open>The legacy prompt scenario\<close>

text \<open>
  The scenario of claim C4 as the claim words it: the assistant message stamped one
  millisecond after the prompt. The extraction stamps it 1000 milliseconds after.
\<close>

theorem legacy_prompt_counterexample:
  "map timestamp (snd (projr (ChatData_extractFromPrompts id ''w'' 0 legacy_entry))) \<noteq> [1000, 1001]"
  by (simp add: ChatData_extractFromPrompts_def ChatData_extractFromPrompt_def
      legacy_entry_def number_or_now_def js_or_def call_on_string_def Let_def int_or_def
      ChatData_promptMessages_def ChatData_promptThread_def String_nat.simps)

text \<open>
  Claim C4, amended. For the \<^verbatim>\<open>aiService.prompts\<close> value holding the single entry with
  prompt "fix bug", response "done" and timestamp 1000, the chatdata adapter extracts one
  thread and two messages: the user message "fix bug" at 1000 and the assistant message
  "done" at 2000; the thread counts two messages and both messages carry its id.
\<close>

theorem legacy_prompt_scenario:
  "\<exists>t u a.
     ChatData_extractFromPrompts sha ws now legacy_entry = Inr ([t], [u, a])
     \<and> ChatData_extract sha
           \<lparr>getItemsByKeys = (\<lambda>keys. [(''aiService.prompts'', legacy_entry)]),
            getItemsByPattern = (\<lambda>pattern. [])\<rparr> ws now = Inr ([t], [u, a])
     \<and> messageCount t = 2
     \<and> role u = User \<and> message_content u = ''fix bug'' \<and> timestamp u = 1000
     \<and> role a = Assistant \<and> message_content a = ''done'' \<and> timestamp a = 2000
     \<and> threadId u = thread_id t \<and> threadId a = thread_id t"
  by (simp add: ChatData_extract_def ChatData_extractFromPrompts_def ChatData_extractFromPrompt_def
      legacy_entry_def number_or_now_def js_or_def call_on_string_def Let_def int_or_def
      ChatData_promptMessages_def ChatData_promptThread_def String_nat.simps)

section \<open>Role normalization\<close>




section \<open>Default retention limits\<close>



section \<open>Stable identity\<close>




section \<open>Thread timestamps\<close>

text \<open>
  A chat session whose messages come in descending time, against claim C9: the thread is
  updated before it is created.
\<close>

theorem descending_session_counterexample:
  "updatedAt (fst (the (projr (ChatData_extractChatSession id ''w'' 0 example_session 0))))
   < createdAt (fst (the (projr (ChatData_extractChatSession id ''w'' 0 example_session 0))))"
  by (simp add: example_session_def chatdata_defs js_defs string_defs Let_def)

text \<open>
  Claim C9, amended. The thread of a prompt pair always has \<open>createdAt \<le> updatedAt\<close>. The
  thread of a chat session or of a composer conversation (read with a clock that is not 0)
  is created at the timestamp of its first extracted message and updated at the timestamp
  of its last one, so it has \<open>createdAt \<le> updatedAt\<close> exactly when the first extracted
  message is not later than the last.
\<close>

theorem thread_timestamps:
  "(ChatData_extractChatSession sha ws now session index = Inr (Some (t, ms)) \<longrightarrow>
      ms \<noteq> [] \<and> createdAt t = timestamp (hd ms) \<and> updatedAt t = timestamp (last ms))
   \<and> (ChatData_extractFromPrompt sha ws now prompt index = Inr (Some (t, ms)) \<longrightarrow>
      ms \<noteq> [] \<and> createdAt t = timestamp (hd ms) \<and> createdAt t \<le> updatedAt t)
   \<and> (Composer_extractSinglePrompt sha ws now data cid = Inr (Some (t, ms)) \<longrightarrow>
      ms \<noteq> [] \<and> createdAt t = timestamp (hd ms) \<and> updatedAt t = timestamp (last ms)
      \<and> createdAt t \<le> updatedAt t)
   \<and> (now \<noteq> 0 \<and> Composer_extractComposerData sha ws now data cid = Inr (Some (t, ms)) \<longrightarrow>
      ms \<noteq> [] \<and> createdAt t = timestamp (hd ms) \<and> updatedAt t = timestamp (last ms))"
proof (intro conjI impI)
  assume a: "ChatData_extractChatSession sha ws now session index = Inr (Some (t, ms))"
  from ChatData_extractChatSession_Some [OF a] obtain first rest ts0 where
    c: "collect_messages
              (\<lambda>msg i. ChatData_extractMessage sha now msg
                 (generateStableId sha [ws, ''chatdata'', String_nat index, String_int ts0]) i)
              (first # rest) 0 = Inr ms"
    and ne: "ms \<noteq> []"
    and t: "t = ChatData_sessionThread ws now session index
                   (generateStableId sha [ws, ''chatdata'', String_nat index, String_int ts0]) ms"
    by blast
  have z: "timestamp m = 0 \<longrightarrow> now = 0" if "m \<in> set ms" for m
  proof -
    from collect_messages_Some [OF c that] obtain j where
      "ChatData_extractMessage sha now ((first # rest) ! j)
         (generateStableId sha [ws, ''chatdata'', String_nat index, String_int ts0]) (0 + j) = Inr (Some m)"
      by blast
    from ChatData_extractMessage_Some [OF this] number_or_now_zero show ?thesis by blast
  qed
  from ne show "ms \<noteq> []" .
  from ne z [of "hd ms"] t show "createdAt t = timestamp (hd ms)"
    by (auto simp: ChatData_sessionThread_def int_or_def)
  from ne z [of "last ms"] t show "updatedAt t = timestamp (last ms)"
    by (auto simp: ChatData_sessionThread_def int_or_def)
next
  assume a: "ChatData_extractFromPrompt sha ws now prompt index = Inr (Some (t, ms))"
  from ChatData_extractFromPrompt_Some [OF a] obtain p response ts where
    ms: "ms = ChatData_promptMessages sha
                    (generateStableId sha [ws, ''prompts'', String_nat index, String_int ts])
                    p response ts"
    and t: "t = ChatData_promptThread ws index
                   (generateStableId sha [ws, ''prompts'', String_nat index, String_int ts]) ms"
    by blast
  from ms ChatData_promptMessages_stamps [of sha _ p response ts]
  have s: "ms \<noteq> []" "timestamp (hd ms) = ts"
    "timestamp (last ms) = ts \<or> timestamp (last ms) = ts + 1000" by auto
  from s show "ms \<noteq> []" by simp
  from t show "createdAt t = timestamp (hd ms)" by (simp add: ChatData_promptThread_def)
  from t s show "createdAt t \<le> updatedAt t"
    by (auto simp: ChatData_promptThread_def int_or_def)
next
  assume a: "Composer_extractSinglePrompt sha ws now data cid = Inr (Some (t, ms))"
  from Composer_extractSinglePrompt_Some [OF a] obtain prompt response ts where
    ms: "ms = Composer_promptMessages sha
                    (generateStableId sha [ws, ''composer'', cid, String_int ts])
                    prompt response ts"
    and ne: "ms \<noteq> []"
    and t: "t = Composer_promptThread ws data cid
                   (generateStableId sha [ws, ''composer'', cid, String_int ts]) ms"
    by blast
  from ne show "ms \<noteq> []" .
  from t show c: "createdAt t = timestamp (hd ms)" and u: "updatedAt t = timestamp (last ms)"
    by (simp_all add: Composer_promptThread_def)
  from ms ne Composer_promptMessages_stamps [of sha _ prompt response ts] c u
  show "createdAt t \<le> updatedAt t" by simp
next
  assume a: "now \<noteq> 0 \<and> Composer_extractComposerData sha ws now data cid = Inr (Some (t, ms))"
  have r: "ms \<noteq> [] \<and> createdAt t = timestamp (hd ms) \<and> updatedAt t = timestamp (last ms)"
  proof (cases "\<not> truthy (conversation_of data) \<and> truthy (js_get data ''prompt'')")
    case True
    with a have "Composer_extractSinglePrompt sha ws now data cid = Inr (Some (t, ms))"
      unfolding Composer_extractComposerData_def by (simp split: if_splits)
    from Composer_extractSinglePrompt_Some [OF this] show ?thesis
      by (auto simp: Composer_promptThread_def)
  next
    case False
    with a obtain ex where
      c: "Composer_conversationMessages sha ws now (conversation_of data) cid = Inr ex"
      and f: "Composer_finishThread sha ws now data cid ex = Inr (Some (t, ms))"
      unfolding Composer_extractComposerData_def
      by (auto split: if_splits sum.splits)
    from Composer_finishThread_Some [OF f] obtain created updated where
      ne: "ex \<noteq> []"
      and ms: "ms = map (threadId_update
                     (\<lambda>_. generateStableId sha
                             [ws, ''composer'', cid,
                              String_int (int_or (timestamp (hd ex)) now)])) ex"
      and cr: "int_or_field (timestamp (hd ex)) (js_get data ''createdAt'') now = Inr created"
      and up: "int_or_field (timestamp (last ex)) (js_get data ''updatedAt'') now = Inr updated"
      and t: "t = Composer_conversationThread ws data cid
                   (generateStableId sha
                      [ws, ''composer'', cid, String_int (int_or (timestamp (hd ex)) now)])
                   created updated ms"
      by blast
    have z: "timestamp e \<noteq> 0" if "e \<in> set ex" for e
    proof -
      from Composer_conversationMessages_Some [OF c that] obtain msg i where
        "Composer_extractComposerMessage sha ws now msg cid i = Inr (Some e)" by blast
      from Composer_extractComposerMessage_Some [OF this] number_or_now_zero a
      show ?thesis by blast
    qed
    from ne ms have hl: "timestamp (hd ms) = timestamp (hd ex)" "timestamp (last ms) = timestamp (last ex)"
      by (simp_all add: hd_map last_map)
    from ne z [of "hd ex"] cr have "created = timestamp (hd ex)" by (simp add: int_or_field_def)
    moreover from ne z [of "last ex"] up have "updated = timestamp (last ex)"
      by (simp add: int_or_field_def)
    ultimately show ?thesis using t hl ne ms by (simp add: Composer_conversationThread_def)
  qed
  from r show "ms \<noteq> []" by simp
  from r show "createdAt t = timestamp (hd ms)" by simp
  from r show "updatedAt t = timestamp (last ms)" by simp
qed

theorem thread_timestamps_witness:
  "createdAt (fst (the (projr (ChatData_extractChatSession id ''w'' 0 example_session 0)))) = 200
   \<and> updatedAt (fst (the (projr (ChatData_extractChatSession id ''w'' 0 example_session 0)))) = 100"
  using thread_timestamps [of id "''w''" 0 example_session 0
      "fst (the (projr (ChatData_extractChatSession id ''w'' 0 example_session 0)))"
      "snd (the (projr (ChatData_extractChatSession id ''w'' 0 example_session 0)))"]
  by (simp add: example_session_def chatdata_defs js_defs string_defs Let_def)

section \<open>The adapter merge\<close>


section \<open>Code-block round trip\<close>











section \<open>The retention invariant\<close>






section \<open>Idempotence of extraction\<close>






end
